theory Spec2Isabelle
  imports Complex_Main "HOL-Library.Sublist" "HOL-Library.Log_Nat"
begin


section \<open>Python helpers\<close>

text \<open>
  Python slices with an integer bound: \<^verbatim>\<open>xs[:c]\<close> and \<^verbatim>\<open>xs[c:]\<close>. A negative bound
  counts from the end of the list and is clamped at the start; a bound of \<open>0\<close> is the
  start of the list, also when it was written \<^verbatim>\<open>-0\<close>.
\<close>

definition py_slice_to :: "'a list \<Rightarrow> int \<Rightarrow> 'a list" where
  "py_slice_to xs c = (if c < 0 then take (nat (int (length xs) + c)) xs else take (nat c) xs)"

definition py_slice_from :: "'a list \<Rightarrow> int \<Rightarrow> 'a list" where
  "py_slice_from xs c = (if c < 0 then drop (nat (int (length xs) + c)) xs else drop (nat c) xs)"

text \<open>\<^verbatim>\<open>str.lower()\<close> on the ASCII letters of an address.\<close>

definition lower_char :: "char \<Rightarrow> char" where
  "lower_char c = (let n = (of_char c :: nat) in if 65 \<le> n \<and> n \<le> 90 then char_of (n + 32) else c)"

definition lower :: "string \<Rightarrow> string" where
  "lower s = map lower_char s"

section \<open>The wallet pool registry: \<^verbatim>\<open>multi_wallet_manager.py\<close>\<close>

text \<open>
  A \<^verbatim>\<open>Wallet\<close> is built from a private key; its address is the one of the account.
  \<^verbatim>\<open>Wallet.create_new_wallet()\<close> draws a random account, so the registry is given a
  generator \<open>gen\<close> that returns the next account and the next generator state.
\<close>

record wallet =
  private_key :: string
  address :: string

text \<open>
  One entry of the wallets file. The keys \<^verbatim>\<open>active\<close> and \<^verbatim>\<open>stats\<close> may be absent
  (the code reads them with \<^verbatim>\<open>.get\<close> and \<^verbatim>\<open>in\<close>); \<^verbatim>\<open>stats\<close> is a dictionary from
  key names to numbers. The number type \<open>'n\<close> stands for Python's numbers under \<^verbatim>\<open>+\<close>.
\<close>

record 'n wallet_data =
  wd_address :: string
  wd_private_key :: string
  wd_active :: "bool option"
  wd_stats :: "(string \<rightharpoonup> 'n) option"

datatype 'n wallets_file = NoFile | BadJson | Json "'n wallet_data list"

record ('n, 'r) manager =
  wallets :: "wallet list"
  store :: "'n wallets_file"
  rng :: 'r

definition get_all_wallets :: "('n, 'r) manager \<Rightarrow> wallet list" where
  "get_all_wallets m = wallets m"

definition save_wallets :: "'n wallet_data list \<Rightarrow> ('n, 'r) manager \<Rightarrow> ('n, 'r) manager" where
  "save_wallets wallets_data m = m\<lparr>store := Json wallets_data\<rparr>"

definition get_wallet_data :: "('n, 'r) manager \<Rightarrow> 'n wallet_data list" where
  "get_wallet_data m =
     (let wallets_data = (case store m of Json d \<Rightarrow> d | _ \<Rightarrow> []);
          current_addresses = map address (wallets m)
      in map (\<lambda>wd. wd\<lparr>wd_active := Some (wd_address wd \<in> set current_addresses)\<rparr>) wallets_data)"

definition new_stats :: "string \<rightharpoonup> ('n::{zero,one,plus})" where
  "new_stats = [''trades'' \<mapsto> 0, ''volume'' \<mapsto> 0]"

definition create_wallet ::
  "('r \<Rightarrow> wallet \<times> 'r) \<Rightarrow> ('n::{zero,one,plus}, 'r) manager \<Rightarrow> wallet \<times> ('n, 'r) manager" where
  "create_wallet gen m =
     (let (wallet_info, r) = gen (rng m);
          m1 = m\<lparr>wallets := wallets m @ [wallet_info], rng := r\<rparr>;
          wallets_data = get_wallet_data m1 @
            [\<lparr>wd_address = address wallet_info, wd_private_key = private_key wallet_info,
              wd_active = Some True, wd_stats = Some new_stats\<rparr>]
      in (wallet_info, save_wallets wallets_data m1))"

text \<open>The \<^verbatim>\<open>while len(self.wallets) < count\<close> loop of \<^verbatim>\<open>ensure_wallets\<close>.\<close>

function ensure_loop ::
  "('r \<Rightarrow> wallet \<times> 'r) \<Rightarrow> int \<Rightarrow> ('n::{zero,one,plus}, 'r) manager \<Rightarrow> ('n, 'r) manager" where
  "ensure_loop gen count m =
     (if int (length (wallets m)) < count then ensure_loop gen count (snd (create_wallet gen m))
      else m)"
  by pat_completeness auto
termination
  by (relation "measure (\<lambda>(gen, count, m). nat (count - int (length (wallets m))))")
     (auto simp: create_wallet_def save_wallets_def Let_def split: prod.splits)

declare ensure_loop.simps [simp del]

definition ensure_wallets ::
  "('r \<Rightarrow> wallet \<times> 'r) \<Rightarrow> int \<Rightarrow> ('n::{zero,one,plus}, 'r) manager
     \<Rightarrow> wallet list \<times> ('n, 'r) manager" where
  "ensure_wallets gen count m = (let m' = ensure_loop gen count m in (py_slice_to (wallets m') count, m'))"

text \<open>
  \<^verbatim>\<open>update_wallet_stats(address, trade_amount_usd)\<close>: the loop over the file's entries
  stops at the first entry whose address matches, ignoring case.
\<close>

definition bump_stats :: "'n \<Rightarrow> ('n::{zero,one,plus}) wallet_data \<Rightarrow> 'n wallet_data" where
  "bump_stats trade_amount_usd wd =
     (let stats = (case wd_stats wd of None \<Rightarrow> new_stats | Some st \<Rightarrow> st);
          stats1 = stats(''trades'' \<mapsto> (case stats ''trades'' of None \<Rightarrow> 0 | Some t \<Rightarrow> t) + 1);
          stats2 = stats1(''volume'' \<mapsto> (case stats1 ''volume'' of None \<Rightarrow> 0 | Some v \<Rightarrow> v) + trade_amount_usd)
      in wd\<lparr>wd_stats := Some stats2\<rparr>)"

fun update_first :: "string \<Rightarrow> 'n \<Rightarrow> ('n::{zero,one,plus}) wallet_data list \<Rightarrow> 'n wallet_data list" where
  "update_first addr amt [] = []"
| "update_first addr amt (wd # rest) =
     (if lower (wd_address wd) = lower addr then bump_stats amt wd # rest
      else wd # update_first addr amt rest)"

definition update_wallet_stats ::
  "string \<Rightarrow> 'n \<Rightarrow> ('n::{zero,one,plus}, 'r) manager \<Rightarrow> ('n, 'r) manager" where
  "update_wallet_stats addr trade_amount_usd m =
     save_wallets (update_first addr trade_amount_usd (get_wallet_data m)) m"

definition deactivate_wallets :: "int \<Rightarrow> ('n, 'r) manager \<Rightarrow> string list \<times> ('n, 'r) manager" where
  "deactivate_wallets count m =
     (let (deactivated, m1) =
            (if count \<ge> int (length (wallets m))
             then (map address (wallets m), m\<lparr>wallets := []\<rparr>)
             else (map address (py_slice_from (wallets m) (- count)),
                   m\<lparr>wallets := py_slice_to (wallets m) (- count)\<rparr>));
          wallets_data = map (\<lambda>wd. if wd_address wd \<in> set deactivated
                                     then wd\<lparr>wd_active := Some False\<rparr> else wd)
                             (get_wallet_data m1)
      in (deactivated, save_wallets wallets_data m1))"


text \<open>
  Reading one statistic of one wallet back from the stored snapshot, as the tests do
  with \<^verbatim>\<open>next(w for w in wallets if w['address'] == address)['stats'][key]\<close>.
\<close>

definition wallet_stat :: "string \<Rightarrow> string \<Rightarrow> ('n, 'r) manager \<Rightarrow> 'n option" where
  "wallet_stat addr key m =
     (case store m of
        Json d \<Rightarrow>
          (case find (\<lambda>wd. wd_address wd = addr) d of
             Some wd \<Rightarrow> (case wd_stats wd of Some st \<Rightarrow> st key | None \<Rightarrow> None)
           | None \<Rightarrow> None)
      | _ \<Rightarrow> None)"

subsection \<open>A concrete registry\<close>

text \<open>
  A deterministic stand-in for the random account generator, and the registry that
  \<^verbatim>\<open>MultiWalletManager(path)\<close> starts with when the wallets file does not exist.
\<close>

definition gen0 :: "nat \<Rightarrow> wallet \<times> nat" where
  "gen0 k = (\<lparr>private_key = replicate (Suc k) CHR ''k'', address = replicate (Suc k) CHR ''A''\<rparr>, Suc k)"

definition empty_manager :: "(int, nat) manager" where
  "empty_manager = \<lparr>wallets = [], store = Json [], rng = 0\<rparr>"

definition one_wallet :: "(int, nat) manager" where
  "one_wallet = snd (create_wallet gen0 empty_manager)"

definition two_wallets :: "(int, nat) manager" where
  "two_wallets = snd (create_wallet gen0 one_wallet)"

section \<open>Python numbers\<close>

text \<open>
  Python's \<^verbatim>\<open>float\<close> is an IEEE 754 binary64 number. A finite one is modelled by the
  rational it denotes. \<open>fl64 x\<close> is \<open>x\<close> rounded to the nearest binary64 value, ties to
  the even significand, with the fixed step \<open>2\<^sup>-\<^sup>1\<^sup>0\<^sup>7\<^sup>4\<close> in the subnormal range; the
  result is \<open>None\<close> where the rounded value leaves the finite range (infinity).
\<close>

definition round_half_even :: "rat \<Rightarrow> int" where
  "round_half_even x =
     (let f = \<lfloor>x\<rfloor>; d = x - of_int f
      in if d < 1 / 2 then f else if 1 / 2 < d then f + 1 else if even f then f else f + 1)"

definition fl64 :: "rat \<Rightarrow> rat option" where
  "fl64 x =
     (if x = 0 then Some 0
      else let a = \<bar>x\<bar>;
               (p, q) = quotient_of a;
               k = bitlen p - bitlen q;
               e = (if 2 powi k \<le> a then k else k - 1);
               u = 2 powi (max e (- 1022) - 52);
               r = of_int (round_half_even (a / u)) * u
           in if 2 powi 1024 \<le> r then None else Some (sgn x * r))"

text \<open>A float literal of the source: the binary64 value nearest to the decimal.\<close>

definition float_lit :: "rat \<Rightarrow> rat" where
  "float_lit x = the (fl64 x)"

datatype exn =
    ValueError string
  | OverflowError string
  | ZeroDivisionError string
  | ProviderError string

fun str_exn :: "exn \<Rightarrow> string" where
  "str_exn (ValueError m) = m"
| "str_exn (OverflowError m) = m"
| "str_exn (ZeroDivisionError m) = m"
| "str_exn (ProviderError m) = m"

text \<open>\<^verbatim>\<open>int(x)\<close> on a finite float truncates towards zero.\<close>

definition py_trunc :: "rat \<Rightarrow> int" where
  "py_trunc x = (if x < 0 then - \<lfloor>- x\<rfloor> else \<lfloor>x\<rfloor>)"

text \<open>
  \<^verbatim>\<open>int(n * c)\<close> for an integer \<open>n\<close> and a float \<open>c\<close>: \<open>n\<close> is converted to a float
  (\<^verbatim>\<open>OverflowError\<close> when it is too large), the product is rounded, and \<^verbatim>\<open>int\<close> of an
  infinite product raises \<^verbatim>\<open>OverflowError\<close> as well.
\<close>

definition py_int_mul :: "int \<Rightarrow> rat \<Rightarrow> exn + int" where
  "py_int_mul n c =
     (case fl64 (of_int n) of
        None \<Rightarrow> Inl (OverflowError ''int too large to convert to float'')
      | Some f \<Rightarrow>
          (case fl64 (f * c) of
             None \<Rightarrow> Inl (OverflowError ''cannot convert float infinity to integer'')
           | Some p \<Rightarrow> Inr (py_trunc p)))"

fun digits10 :: "nat \<Rightarrow> string" where
  "digits10 n = (if n < 10 then [char_of (48 + n)]
                 else digits10 (n div 10) @ [char_of (48 + n mod 10)])"

declare digits10.simps [simp del]

definition str_int :: "int \<Rightarrow> string" where
  "str_int i = (if i < 0 then CHR ''-'' # digits10 (nat (- i)) else digits10 (nat i))"

section \<open>The chain gateway\<close>

text \<open>
  An address is the number its 40 hexadecimal digits denote, so that
  \<^verbatim>\<open>Web3.to_checksum_address\<close>, \<^verbatim>\<open>.lower()\<close> and \<^verbatim>\<open>int(a, 16)\<close> are the identity and two
  spellings of one address are equal. A transaction hash is its hexadecimal string
  (\<^verbatim>\<open>w3.to_hex\<close> is the identity).
\<close>

type_synonym address = nat

fun hex_digits :: "nat \<Rightarrow> nat \<Rightarrow> string" where
  "hex_digits 0 v = []"
| "hex_digits (Suc k) v =
     hex_digits k (v div 16) @ [(let d = v mod 16 in if d < 10 then char_of (48 + d) else char_of (87 + d))]"

definition hex_address :: "address \<Rightarrow> string" where
  "hex_address a = ''0x'' @ hex_digits 40 a"

record receipt =
  r_status :: int
  r_gasUsed :: int
  r_blockNumber :: int

record swap_params =
  p_tokenIn :: address
  p_tokenOut :: address
  p_fee :: int
  p_recipient :: address
  p_deadline :: "int option"
  p_amountIn :: int
  p_amountOutMinimum :: int
  p_sqrtPriceLimitX96 :: int

text \<open>
  The contract functions the bots call: \<open>Approve token spender amount\<close>,
  \<open>ExactInputSingle router params\<close>, \<open>Withdraw weth wad\<close> and \<open>Mint token to amount\<close>.
\<close>

datatype contract_call =
    Approve address address int
  | ExactInputSingle address swap_params
  | Withdraw address int
  | Mint address address int

text \<open>A call together with the transaction parameters given to \<^verbatim>\<open>build_transaction\<close>.\<close>

record tx =
  tx_call :: contract_call
  tx_from :: address
  tx_nonce :: "int option"
  tx_gas :: int
  tx_gasPrice :: int
  tx_value :: "int option"
  tx_chainId :: "int option"

text \<open>
  The node and the contracts behind it are the environment: every operation takes the
  state \<open>'w\<close> of the world and returns a result or the exception it raised, and the
  next state of the world. Nothing is assumed about them. Building and signing a
  transaction yield the transaction itself when they do not raise.
\<close>

record 'w chain =
  eth_gas_price :: "'w \<Rightarrow> (exn + int) \<times> 'w"
  eth_get_transaction_count :: "address \<Rightarrow> 'w \<Rightarrow> (exn + int) \<times> 'w"
  eth_get_balance :: "address \<Rightarrow> 'w \<Rightarrow> (exn + int) \<times> 'w"
  eth_send_raw_transaction :: "tx \<Rightarrow> 'w \<Rightarrow> (exn + string) \<times> 'w"
  eth_wait_for_transaction_receipt :: "string \<Rightarrow> nat \<Rightarrow> 'w \<Rightarrow> (exn + receipt) \<times> 'w"
  eth_call :: "tx \<Rightarrow> int \<Rightarrow> 'w \<Rightarrow> (exn + unit) \<times> 'w"
  build_transaction :: "tx \<Rightarrow> 'w \<Rightarrow> (exn + unit) \<times> 'w"
  sign_transaction :: "tx \<Rightarrow> 'w \<Rightarrow> (exn + unit) \<times> 'w"
  erc20_balanceOf :: "address \<Rightarrow> address \<Rightarrow> 'w \<Rightarrow> (exn + int) \<times> 'w"
  erc20_decimals :: "address \<Rightarrow> 'w \<Rightarrow> (exn + nat) \<times> 'w"
  erc20_allowance :: "address \<Rightarrow> address \<Rightarrow> address \<Rightarrow> 'w \<Rightarrow> (exn + int) \<times> 'w"
  erc20_symbol :: "address \<Rightarrow> 'w \<Rightarrow> (exn + string) \<times> 'w"
  erc20_totalSupply :: "address \<Rightarrow> 'w \<Rightarrow> (exn + int) \<times> 'w"
  factory_getPool :: "address \<Rightarrow> address \<Rightarrow> int \<Rightarrow> 'w \<Rightarrow> (exn + address) \<times> 'w"
  time_time :: "'w \<Rightarrow> (exn + int) \<times> 'w"

text \<open>
  What a run leaves behind, in order: the raw transactions handed to
  \<^verbatim>\<open>send_raw_transaction\<close>, the read-only replay of a reverted swap, the sleeps, and four
  of the log lines:
  \<^item> \<open>LogGasSwapForSwap\<close>: "Attempting to swap some USDC for ETH to cover gas fees";
  \<^item> \<open>LogRetrySwap\<close>: "Successfully swapped USDC for ETH. Now retrying original transaction";
  \<^item> \<open>LogGasSwapForApproval\<close>: "Attempting to swap some USDC for ETH to cover approval gas fees";
  \<^item> \<open>LogRetryApproval\<close>: "Successfully swapped USDC for ETH. Now retrying token approval".
\<close>

datatype event =
    EvSend tx
  | EvReplay tx
  | EvSleep nat
  | LogGasSwapForSwap
  | LogRetrySwap
  | LogGasSwapForApproval
  | LogRetryApproval

record 'w st =
  world :: 'w
  trace :: "event list"

type_synonym ('w, 'a) prog = "'w st \<Rightarrow> (exn + 'a) \<times> 'w st"

definition ret :: "'a \<Rightarrow> ('w, 'a) prog" where
  "ret x s = (Inr x, s)"

definition raise :: "exn \<Rightarrow> ('w, 'a) prog" where
  "raise e s = (Inl e, s)"

definition bind :: "('w, 'a) prog \<Rightarrow> ('a \<Rightarrow> ('w, 'b) prog) \<Rightarrow> ('w, 'b) prog" where
  "bind m f s = (case m s of (Inl e, s') \<Rightarrow> (Inl e, s') | (Inr x, s') \<Rightarrow> f x s')"

text \<open>\<^verbatim>\<open>try: m except Exception as e: h e\<close>\<close>

definition catch :: "('w, 'a) prog \<Rightarrow> (exn \<Rightarrow> ('w, 'a) prog) \<Rightarrow> ('w, 'a) prog" where
  "catch m h s = (case m s of (Inl e, s') \<Rightarrow> h e s' | (Inr x, s') \<Rightarrow> (Inr x, s'))"

definition call :: "('w \<Rightarrow> (exn + 'a) \<times> 'w) \<Rightarrow> ('w, 'a) prog" where
  "call op s = (case op (world s) of (r, w') \<Rightarrow> (r, s\<lparr>world := w'\<rparr>))"

definition log :: "event \<Rightarrow> ('w, unit) prog" where
  "log ev s = (Inr (), s\<lparr>trace := trace s @ [ev]\<rparr>)"

definition lift :: "exn + 'a \<Rightarrow> ('w, 'a) prog" where
  "lift r = (case r of Inl e \<Rightarrow> raise e | Inr x \<Rightarrow> ret x)"

definition send :: "'w chain \<Rightarrow> tx \<Rightarrow> ('w, string) prog" where
  "send env t = bind (log (EvSend t)) (\<lambda>_. call (eth_send_raw_transaction env t))"

text \<open>\<^verbatim>\<open>build_transaction\<close>, then \<^verbatim>\<open>wallet.sign_transaction\<close>.\<close>

definition build_and_sign :: "'w chain \<Rightarrow> tx \<Rightarrow> ('w, unit) prog" where
  "build_and_sign env t = bind (call (build_transaction env t)) (\<lambda>_. call (sign_transaction env t))"

section \<open>The trade executor: \<^verbatim>\<open>trader.py\<close>\<close>

definition MYSO :: address where "MYSO = 0xfdd6013bf2757018d8c087244f03e5a521b2d3b7"
definition USDC :: address where "USDC = 0x833589fcd6edb6e08f4c7c32d4f71b54bda02913"
definition WETH :: address where "WETH = 0x4200000000000000000000000000000000000006"

definition TOKEN_SYMBOLS :: "address \<rightharpoonup> string" where
  "TOKEN_SYMBOLS = [MYSO \<mapsto> ''MYSO'', USDC \<mapsto> ''USDC'', WETH \<mapsto> ''WETH'']"

definition insufficient_funds :: string where
  "insufficient_funds = ''insufficient funds for gas * price + value''"

record trader =
  t_wallet :: address
  t_router :: address
  t_max_gas_price :: int
  t_eth_address :: address

text \<open>
  \<^verbatim>\<open>Trader.__init__\<close>, for the fields used below: \<^verbatim>\<open>Web3.to_wei(100, 'gwei')\<close> is
  \<open>100 \<times> 10\<^sup>9\<close>.
\<close>

definition Trader :: "address \<Rightarrow> address \<Rightarrow> trader" where
  "Trader wallet router_address =
     \<lparr>t_wallet = wallet, t_router = router_address,
      t_max_gas_price = 100 * 10 ^ 9, t_eth_address = WETH\<rparr>"

definition get_token_balance :: "'w chain \<Rightarrow> trader \<Rightarrow> address \<Rightarrow> ('w, int \<times> nat) prog" where
  "get_token_balance env t token_address =
     bind (call (erc20_balanceOf env token_address (t_wallet t))) (\<lambda>balance.
     bind (call (erc20_decimals env token_address)) (\<lambda>decimals.
     ret (balance, decimals)))"

definition get_token_allowance :: "'w chain \<Rightarrow> trader \<Rightarrow> address \<Rightarrow> address \<Rightarrow> ('w, int) prog" where
  "get_token_allowance env t token_address spender =
     call (erc20_allowance env token_address (t_wallet t) spender)"

definition get_token_symbol :: "'w chain \<Rightarrow> address \<Rightarrow> ('w, string) prog" where
  "get_token_symbol env token_address =
     (case TOKEN_SYMBOLS token_address of
        Some s \<Rightarrow> ret s
      | None \<Rightarrow>
          catch (call (erc20_symbol env token_address))
            (\<lambda>e. ret (take 6 (hex_address token_address) @ ''...'' @ drop 38 (hex_address token_address))))"

definition get_gas_price :: "'w chain \<Rightarrow> trader \<Rightarrow> ('w, int) prog" where
  "get_gas_price env t =
     catch (bind (call (eth_gas_price env)) (\<lambda>current_gas_price.
            ret (min current_gas_price (t_max_gas_price t))))
       (\<lambda>e. ret (t_max_gas_price t))"

definition check_pool_exists :: "'w chain \<Rightarrow> trader \<Rightarrow> address \<Rightarrow> address \<Rightarrow> int \<Rightarrow> ('w, bool) prog" where
  "check_pool_exists env t token_a token_b fee =
     catch
       (let fee = 3000;
            (token_a, token_b) = (if token_a > token_b then (token_b, token_a) else (token_a, token_b))
        in bind (call (factory_getPool env token_a token_b fee)) (\<lambda>pool_address.
           ret (pool_address \<noteq> 0)))
       (\<lambda>e. ret False)"

text \<open>\<^verbatim>\<open>if eth_swap_tx:\<close> on a value that is \<^verbatim>\<open>None\<close> or a string.\<close>

definition truthy :: "string option \<Rightarrow> bool" where
  "truthy r = (case r of None \<Rightarrow> False | Some h \<Rightarrow> h \<noteq> [])"

function swap_usdc_for_eth :: "'w chain \<Rightarrow> trader \<Rightarrow> nat \<Rightarrow> ('w, string option) prog" where
  "swap_usdc_for_eth env t retry_count =
     (if retry_count \<ge> 2 then ret None
      else
        catch
         (bind (get_token_balance env t USDC) (\<lambda>(usdc_balance, usdc_decimals).
          if usdc_balance \<le> 0 then ret None
          else
          bind (lift (py_int_mul (10 ^ usdc_decimals) (float_lit (1 / 10)))) (\<lambda>tenth.
          bind (lift (py_int_mul usdc_balance (float_lit (2 / 10)))) (\<lambda>fifth.
          let swap_amount = min tenth fifth in
          if swap_amount \<le> 0 then ret None
          else
          bind (call (eth_get_balance env (t_wallet t))) (\<lambda>eth_balance_before.
          bind (get_token_allowance env t USDC (t_router t)) (\<lambda>allowance.
          bind (if allowance < swap_amount then
                  bind (call (eth_gas_price env)) (\<lambda>live.
                  bind (lift (py_int_mul live (float_lit (8 / 10)))) (\<lambda>gas_price.
                  bind (call (eth_get_transaction_count env (t_wallet t))) (\<lambda>nonce.
                  let tx = \<lparr>tx_call = Approve USDC (t_router t) (swap_amount * 2),
                            tx_from = t_wallet t, tx_nonce = Some nonce, tx_gas = 100000,
                            tx_gasPrice = gas_price, tx_value = None, tx_chainId = None\<rparr> in
                  bind (build_and_sign env tx) (\<lambda>_.
                  bind (send env tx) (\<lambda>tx_hash.
                  catch (bind (call (eth_wait_for_transaction_receipt env tx_hash 30)) (\<lambda>_. ret ()))
                    (\<lambda>e. ret ()))))))
                else ret ()) (\<lambda>_.
          bind (call (eth_gas_price env)) (\<lambda>live.
          bind (lift (py_int_mul live (float_lit (8 / 10)))) (\<lambda>gas_price.
          let amount_out_min = 1 in
          bind (call (eth_get_transaction_count env (t_wallet t))) (\<lambda>nonce.
          let weth_address = t_eth_address t in
          bind (call (time_time env)) (\<lambda>now.
          let deadline = now + 60;
              tx = \<lparr>tx_call = ExactInputSingle (t_router t)
                       \<lparr>p_tokenIn = USDC, p_tokenOut = weth_address, p_fee = 3000,
                        p_recipient = t_wallet t, p_deadline = Some deadline,
                        p_amountIn = swap_amount, p_amountOutMinimum = amount_out_min,
                        p_sqrtPriceLimitX96 = 0\<rparr>,
                    tx_from = t_wallet t, tx_nonce = Some nonce, tx_gas = 300000,
                    tx_gasPrice = gas_price, tx_value = Some 0, tx_chainId = Some 8453\<rparr> in
          bind (build_and_sign env tx) (\<lambda>_.
          bind (send env tx) (\<lambda>tx_hash.
          catch
           (bind (call (eth_wait_for_transaction_receipt env tx_hash 60)) (\<lambda>receipt.
            if r_status receipt = 1 then
              bind (call (erc20_balanceOf env weth_address (t_wallet t))) (\<lambda>weth_balance.
              if weth_balance > 0 then
                bind (call (eth_get_transaction_count env (t_wallet t))) (\<lambda>nonce.
                let unwrap_tx = \<lparr>tx_call = Withdraw weth_address weth_balance,
                                 tx_from = t_wallet t, tx_nonce = Some nonce, tx_gas = 100000,
                                 tx_gasPrice = gas_price, tx_value = None, tx_chainId = Some 8453\<rparr> in
                bind (build_and_sign env unwrap_tx) (\<lambda>_.
                bind (send env unwrap_tx) (\<lambda>unwrap_tx_hash.
                catch
                 (bind (call (eth_wait_for_transaction_receipt env unwrap_tx_hash 60)) (\<lambda>unwrap_receipt.
                  if r_status unwrap_receipt = 1 then
                    bind (call (eth_get_balance env (t_wallet t))) (\<lambda>eth_balance_after.
                    ret (Some unwrap_tx_hash))
                  else ret None))
                 (\<lambda>e. ret (Some tx_hash)))))
              else ret (Some tx_hash))
            else ret None))
           (\<lambda>e. ret None))))))))))))))
         (\<lambda>e. swap_usdc_for_eth env t (retry_count + 1)))"
  by pat_completeness auto
termination
  by (relation "measure (\<lambda>(env, t, retry_count). 2 - retry_count)") auto

declare swap_usdc_for_eth.simps [simp del]

function approve_token ::
  "'w chain \<Rightarrow> trader \<Rightarrow> address \<Rightarrow> address \<Rightarrow> int \<Rightarrow> bool \<Rightarrow> ('w, string) prog" where
  "approve_token env t token_address spender amount retry_after_eth_swap =
     bind (get_token_allowance env t token_address spender) (\<lambda>allowance.
     bind (get_token_symbol env token_address) (\<lambda>_.
     if allowance \<ge> amount then ret ''0x0''
     else
     bind (call (eth_get_transaction_count env (t_wallet t))) (\<lambda>nonce.
     bind (call (eth_gas_price env)) (\<lambda>live.
     bind (lift (py_int_mul live (float_lit (12 / 10)))) (\<lambda>gas_price.
     let tx = \<lparr>tx_call = Approve token_address spender amount,
               tx_from = t_wallet t, tx_nonce = Some nonce, tx_gas = 100000,
               tx_gasPrice = gas_price, tx_value = None, tx_chainId = None\<rparr> in
     bind (build_and_sign env tx) (\<lambda>_.
     catch
      (bind (send env tx) (\<lambda>tx_hash.
       bind (catch (bind (call (eth_wait_for_transaction_receipt env tx_hash 60)) (\<lambda>_. ret ()))
               (\<lambda>e. ret ())) (\<lambda>_.
       ret tx_hash)))
      (\<lambda>e.
        if sublist insufficient_funds (str_exn e) \<and> \<not> retry_after_eth_swap then
          if token_address = USDC then
            raise (ValueError ''Need ETH to fund initial transaction. Please fund wallet with some ETH first.'')
          else
            bind (get_token_balance env t USDC) (\<lambda>(usdc_balance, _).
            if usdc_balance > 0 then
              bind (log LogGasSwapForApproval) (\<lambda>_.
              bind (swap_usdc_for_eth env t 0) (\<lambda>eth_swap_tx.
              if truthy eth_swap_tx then
                bind (log LogRetryApproval) (\<lambda>_.
                bind (log (EvSleep 3)) (\<lambda>_.
                approve_token env t token_address spender amount True))
              else raise e))
            else raise e)
        else raise e)))))))"
  by pat_completeness auto
termination
  by (relation "measure (\<lambda>(env, t, token_address, spender, amount, retry). if retry then 0 else 1)") auto

declare approve_token.simps [simp del]

text \<open>
  \<^verbatim>\<open>swap_tokens_for_tokens(token_in, token_out, amount_in, pool_key, retry_after_eth_swap)\<close>.
  The argument \<^verbatim>\<open>pool_key\<close> is not read by the body and is left out; the outermost
  \<^verbatim>\<open>except Exception\<close> logs and re-raises, which is the identity on results.
\<close>

function swap_tokens_for_tokens ::
  "'w chain \<Rightarrow> trader \<Rightarrow> address \<Rightarrow> address \<Rightarrow> int \<Rightarrow> bool \<Rightarrow> ('w, string) prog" where
  "swap_tokens_for_tokens env t token_in token_out amount_in retry_after_eth_swap =
     bind (get_token_symbol env token_in) (\<lambda>token_in_symbol.
     bind (get_token_symbol env token_out) (\<lambda>token_out_symbol.
     let fee = 3000 in
     bind (check_pool_exists env t token_in token_out fee) (\<lambda>pool_exists.
     if \<not> pool_exists then
       raise (ValueError (''No liquidity pool found for '' @ token_in_symbol @ ''-'' @ token_out_symbol))
     else
     bind (get_token_allowance env t token_in (t_router t)) (\<lambda>allowance.
     bind (if allowance < amount_in then
             bind (approve_token env t token_in (t_router t) (2 ^ 256 - 1) False) (\<lambda>approve_tx.
             if approve_tx \<noteq> ''0x0'' then
               bind (log (EvSleep 5)) (\<lambda>_.
               bind (get_token_allowance env t token_in (t_router t)) (\<lambda>new_allowance.
               if new_allowance < amount_in then
                 raise (ValueError (''Approval failed - allowance '' @ str_int new_allowance
                          @ '' still below required '' @ str_int amount_in))
               else ret ()))
             else ret ())
           else ret ()) (\<lambda>_.
     bind (if token_in_symbol = ''MYSO'' \<and> token_out_symbol = ''USDC'' then ret 1000
           else lift (py_int_mul amount_in (float_lit (2 / 10)))) (\<lambda>amount_out_min.
     bind (call (eth_get_transaction_count env (t_wallet t))) (\<lambda>nonce.
     bind (call (eth_gas_price env)) (\<lambda>live.
     bind (lift (py_int_mul live (float_lit (14 / 10)))) (\<lambda>gas_price.
     let tx = \<lparr>tx_call = ExactInputSingle (t_router t)
                  \<lparr>p_tokenIn = token_in, p_tokenOut = token_out, p_fee = fee,
                   p_recipient = t_wallet t, p_deadline = None,
                   p_amountIn = amount_in, p_amountOutMinimum = amount_out_min,
                   p_sqrtPriceLimitX96 = 0\<rparr>,
               tx_from = t_wallet t, tx_nonce = Some nonce, tx_gas = 500000,
               tx_gasPrice = gas_price, tx_value = Some 0, tx_chainId = Some 8453\<rparr> in
     bind (build_and_sign env tx) (\<lambda>_.
     catch
      (bind (send env tx) (\<lambda>tx_hash.
       bind (call (eth_wait_for_transaction_receipt env tx_hash 180)) (\<lambda>receipt.
       if r_status receipt = 1 then ret tx_hash
       else
         let replay = tx\<lparr>tx_nonce := None, tx_chainId := None\<rparr> in
         bind (catch (bind (log (EvReplay replay)) (\<lambda>_.
                      call (eth_call env replay (r_blockNumber receipt))))
                 (\<lambda>e. ret ())) (\<lambda>_.
         ret tx_hash))))
      (\<lambda>e.
        if sublist insufficient_funds (str_exn e) \<and> \<not> retry_after_eth_swap then
          bind (get_token_balance env t USDC) (\<lambda>(usdc_balance, _).
          if usdc_balance > 0 then
            bind (log LogGasSwapForSwap) (\<lambda>_.
            bind (swap_usdc_for_eth env t 0) (\<lambda>eth_swap_tx.
            if truthy eth_swap_tx then
              bind (log LogRetrySwap) (\<lambda>_.
              bind (log (EvSleep 3)) (\<lambda>_.
              swap_tokens_for_tokens env t token_in token_out amount_in True))
            else raise e))
          else raise e)
        else raise e)))))))))))"
  by pat_completeness auto
termination
  by (relation "measure (\<lambda>(env, t, token_in, token_out, amount_in, retry). if retry then 0 else 1)") auto

declare swap_tokens_for_tokens.simps [simp del]

section \<open>Properties of the registry\<close>

lemma wallets_create_wallet:
  "wallets (snd (create_wallet gen m)) = wallets m @ [fst (gen (rng m))]"
  by (simp add: create_wallet_def save_wallets_def Let_def split: prod.splits)

lemma ensure_loop_prefix: "prefix (wallets m) (wallets (ensure_loop gen count m))"
proof (induction gen count m rule: ensure_loop.induct)
  case (1 gen count m)
  show ?case
  proof (cases "int (length (wallets m)) < count")
    case True
    have "ensure_loop gen count m = ensure_loop gen count (snd (create_wallet gen m))"
      using True by (subst ensure_loop.simps) simp
    with "1.IH"[OF True]
    have "prefix (wallets m @ [fst (gen (rng m))]) (wallets (ensure_loop gen count m))"
      by (simp add: wallets_create_wallet)
    then show ?thesis by (rule append_prefixD)
  next
    case False
    then show ?thesis by (subst ensure_loop.simps) simp
  qed
qed

lemma ensure_loop_length:
  "int (length (wallets (ensure_loop gen count m))) = max (int (length (wallets m))) count"
proof (induction gen count m rule: ensure_loop.induct)
  case (1 gen count m)
  show ?case
  proof (cases "int (length (wallets m)) < count")
    case True
    have "ensure_loop gen count m = ensure_loop gen count (snd (create_wallet gen m))"
      using True by (subst ensure_loop.simps) simp
    with "1.IH"[OF True] True show ?thesis
      by (simp add: wallets_create_wallet)
  next
    case False
    then show ?thesis by (subst ensure_loop.simps) simp
  qed
qed


text \<open>
  Claim C8. \<^verbatim>\<open>ensure_wallets(n)\<close> never removes a wallet: the pool before the call is a
  prefix of the pool after it, the pool after it has \<open>max m n\<close> wallets (wallets are
  created only while fewer than \<open>n\<close> exist), the result is the first \<open>n\<close> wallets of
  the pool in insertion order, and \<^verbatim>\<open>ensure_wallets(5)\<close> followed by
  \<^verbatim>\<open>ensure_wallets(2)\<close> leaves \<open>max 5 m\<close> wallets, which is 5 for every pool that
  started with at most 5.
\<close>

theorem ensure_wallets_monotone:
  "prefix (wallets m) (wallets (snd (ensure_wallets gen (int n) m)))
   \<and> length (wallets (snd (ensure_wallets gen (int n) m))) = max (length (wallets m)) n
   \<and> fst (ensure_wallets gen (int n) m) = take n (wallets (snd (ensure_wallets gen (int n) m)))
   \<and> length (fst (ensure_wallets gen (int n) m)) = n
   \<and> length (wallets (snd (ensure_wallets gen 2 (snd (ensure_wallets gen 5 m)))))
       = max 5 (length (wallets m))"
proof -
  have len: "length (wallets (ensure_loop gen (int k) m')) = max (length (wallets m')) k"
    for k and m' :: "('a, 'b) manager"
    using ensure_loop_length[of gen "int k" m'] by linarith
  have l5: "length (wallets (ensure_loop gen 5 m)) = max (length (wallets m)) 5"
    using len[of 5 m] by simp
  have l2: "length (wallets (ensure_loop gen 2 m')) = max (length (wallets m')) 2"
    for m' :: "('a, 'b) manager"
    using len[of 2 m'] by simp
  show ?thesis
    by (simp add: ensure_wallets_def Let_def py_slice_to_def ensure_loop_prefix len l5 l2)
qed

lemma deactivate_wallets_lifo:
  assumes "1 \<le> k" "k \<le> length (wallets m)"
  shows "fst (deactivate_wallets (int k) m) = map address (drop (length (wallets m) - k) (wallets m))"
    and "wallets (snd (deactivate_wallets (int k) m)) = take (length (wallets m) - k) (wallets m)"
  using assms
  by (auto simp: deactivate_wallets_def Let_def py_slice_from_def py_slice_to_def save_wallets_def
      nat_diff_distrib' of_nat_diff split: prod.splits if_splits)

lemma deactivate_wallets_all:
  assumes "length (wallets m) \<le> k"
  shows "fst (deactivate_wallets (int k) m) = map address (wallets m)"
    and "wallets (snd (deactivate_wallets (int k) m)) = []"
  using assms
  by (auto simp: deactivate_wallets_def Let_def save_wallets_def split: prod.splits if_splits)

lemma wallets_two_wallets:
  "wallets two_wallets =
     [\<lparr>private_key = ''k'', address = ''A''\<rparr>, \<lparr>private_key = ''kk'', address = ''AA''\<rparr>]"
  by (simp add: two_wallets_def one_wallet_def empty_manager_def wallets_create_wallet
      create_wallet_def save_wallets_def Let_def gen0_def)

text \<open>
  Claim C7, at the count \<open>0\<close>. The claim has \<^verbatim>\<open>deactivate_wallets(0)\<close> deactivate the
  0 most recently added wallets and leave the pool as it is. In the code the slices
  \<^verbatim>\<open>self.wallets[-count:]\<close> and \<^verbatim>\<open>self.wallets[:-count]\<close> are, for \<open>count = 0\<close>, the whole
  list and the empty list: every wallet of the pool is deactivated, whatever the pool.
  On the pool of two wallets both addresses are returned and no wallet remains.
\<close>

theorem deactivate_wallets_zero_deactivates_all:
  "fst (deactivate_wallets 0 m) = map address (wallets m)
   \<and> wallets (snd (deactivate_wallets 0 m)) = []
   \<and> fst (deactivate_wallets 0 two_wallets) = [''A'', ''AA'']
   \<and> wallets (snd (deactivate_wallets 0 two_wallets)) = []"
  by (simp add: deactivate_wallets_def Let_def py_slice_from_def py_slice_to_def save_wallets_def
      wallets_two_wallets split: prod.splits)

lemma update_first_not_found:
  "\<forall>wd \<in> set ds. lower (wd_address wd) \<noteq> lower addr \<Longrightarrow> update_first addr amt ds = ds"
  by (induction ds) auto

lemma lower_examples: "lower ''A'' = ''a''" "lower ''a'' = ''a''"
  by code_simp+

lemma store_one_wallet:
  "store one_wallet = Json [\<lparr>wd_address = ''A'', wd_private_key = ''k'',
       wd_active = Some True, wd_stats = Some new_stats\<rparr>]"
  by (simp add: one_wallet_def empty_manager_def create_wallet_def save_wallets_def
      get_wallet_data_def Let_def gen0_def)

text \<open>
  Claim C4, on a registry holding one freshly created wallet. The claim has a buy of
  notional value 7 leave \<^verbatim>\<open>buys = 1, sells = 0\<close> in the wallet's stats.
  \<^verbatim>\<open>update_wallet_stats(address, trade_amount_usd)\<close> has no direction and no profit
  argument: it adds 1 to \<^verbatim>\<open>trades\<close> and the amount to \<^verbatim>\<open>volume\<close>, and the stats hold
  no \<^verbatim>\<open>buys\<close>, \<^verbatim>\<open>sells\<close> or \<^verbatim>\<open>profit\<close> entry afterwards.
\<close>

theorem update_wallet_stats_counts_trades_only:
  "wallet_stat ''A'' ''trades'' (update_wallet_stats ''a'' 7 one_wallet) = Some 1
   \<and> wallet_stat ''A'' ''volume'' (update_wallet_stats ''a'' 7 one_wallet) = Some 7
   \<and> wallet_stat ''A'' ''buys'' (update_wallet_stats ''a'' 7 one_wallet) = None
   \<and> wallet_stat ''A'' ''sells'' (update_wallet_stats ''a'' 7 one_wallet) = None
   \<and> wallet_stat ''A'' ''profit'' (update_wallet_stats ''a'' 7 one_wallet) = None"
  by (simp add: wallet_stat_def update_wallet_stats_def save_wallets_def get_wallet_data_def
      store_one_wallet bump_stats_def new_stats_def Let_def lower_examples)

end
